theory Spec2Isabelle
  imports Main
begin

section \<open>JavaScript values\<close>

text \<open>
  The engine's parameters are untyped. \<open>jsval\<close> lists the values they can receive, as far
  as the engine's checks tell them apart: \<open>JNum\<close> is a number on which
  \<^verbatim>\<open>Number.isInteger\<close> holds, \<open>JNaN\<close> and \<open>JFrac\<close> (a fraction or an infinity) are
  the numbers on which it does not; \<open>JArr\<close> is an array of board cells (cells are strings,
  as \<^verbatim>\<open>getCellValue\<close> documents); \<open>JObj\<close> is any other object. Strings are lists of
  8-bit code units.
\<close>

datatype jsval =
    JUndefined
  | JNull
  | JBool bool
  | JNum int
  | JNaN
  | JFrac
  | JStr string
  | JArr "string list"
  | JObj

datatype exn = Error string | TypeError

fun truthy :: "jsval \<Rightarrow> bool" where
  "truthy JUndefined = False"
| "truthy JNull = False"
| "truthy (JBool b) = b"
| "truthy (JNum n) = (n \<noteq> 0)"
| "truthy JNaN = False"
| "truthy JFrac = True"
| "truthy (JStr s) = (s \<noteq> [])"
| "truthy (JArr xs) = True"
| "truthy JObj = True"

fun isArray :: "jsval \<Rightarrow> bool" where
  "isArray (JArr xs) = True"
| "isArray v = False"

text \<open>The \<^verbatim>\<open>length\<close> property; \<open>None\<close> is \<^verbatim>\<open>undefined\<close>.\<close>

fun js_length :: "jsval \<Rightarrow> nat option" where
  "js_length (JArr xs) = Some (length xs)"
| "js_length (JStr s) = Some (length s)"
| "js_length v = None"

fun isInteger :: "jsval \<Rightarrow> bool" where
  "isInteger (JNum n) = True"
| "isInteger v = False"

text \<open>\<^verbatim>\<open>['X', 'O'].includes(symbol)\<close>\<close>

definition isXO :: "jsval \<Rightarrow> bool" where
  "isXO v = (v = JStr ''X'' \<or> v = JStr ''O'')"

section \<open>Player\<close>

record player =
  name :: jsval
  symbol :: jsval

text \<open>
  The constructor stores both arguments in the backing fields \<^verbatim>\<open>_name\<close> and
  \<^verbatim>\<open>_symbol\<close> directly; it has no \<^verbatim>\<open>throw\<close>.
\<close>

definition Player_new :: "jsval \<Rightarrow> jsval \<Rightarrow> player" where
  "Player_new n s = \<lparr>name = n, symbol = s\<rparr>"

text \<open>
  \<^verbatim>\<open>String.prototype.trim\<close> on 8-bit code units: tab, line feed, vertical tab, form
  feed, carriage return, space and no-break space are white space.
\<close>

definition isWhiteSpace :: "char \<Rightarrow> bool" where
  "isWhiteSpace c = (c \<in> set [CHR 0x09, CHR 0x0A, CHR 0x0B, CHR 0x0C, CHR 0x0D, CHR 0x20, CHR 0xA0])"

definition trim :: "string \<Rightarrow> string" where
  "trim s = rev (dropWhile isWhiteSpace (rev (dropWhile isWhiteSpace s)))"

fun set_name :: "jsval \<Rightarrow> player \<Rightarrow> exn + player" where
  "set_name (JStr s) p =
     (if length (trim s) = 0 then Inl (Error ''Player name must be a non-empty string'')
      else Inr (p\<lparr>name := JStr (trim s)\<rparr>))"
| "set_name v p = Inl (Error ''Player name must be a non-empty string'')"

definition set_symbol :: "jsval \<Rightarrow> player \<Rightarrow> exn + player" where
  "set_symbol newSymbol p =
     (if \<not> isXO newSymbol then Inl (Error ''Player symbol must be either \"X\" or \"O\"'')
      else Inr (p\<lparr>symbol := newSymbol\<rparr>))"

record player_json =
  pj_name :: jsval
  pj_symbol :: jsval

definition Player_toJSON :: "player \<Rightarrow> player_json" where
  "Player_toJSON p = \<lparr>pj_name = name p, pj_symbol = symbol p\<rparr>"

definition Player_fromJSON :: "player_json \<Rightarrow> player" where
  "Player_fromJSON d = Player_new (pj_name d) (pj_symbol d)"

section \<open>Gameboard\<close>

text \<open>
  A Gameboard object is its \<^verbatim>\<open>_board\<close> array; \<^verbatim>\<open>_winningCombinations\<close> is the same
  constant table in every instance.
\<close>

type_synonym board = "string list"

definition winningCombinations :: "(nat \<times> nat \<times> nat) list" where
  "winningCombinations =
     [(0, 1, 2), (3, 4, 5), (6, 7, 8),
      (0, 3, 6), (1, 4, 7), (2, 5, 8),
      (0, 4, 8), (2, 4, 6)]"

definition reset :: board where
  "reset = replicate 9 []"

definition Gameboard_new :: board where
  "Gameboard_new = reset"

text \<open>\<^verbatim>\<open>this._board[i]\<close>: reading past the end of an array gives \<^verbatim>\<open>undefined\<close> (\<open>None\<close>).\<close>

definition cellAt :: "board \<Rightarrow> nat \<Rightarrow> string option" where
  "cellAt b i = (if i < length b then Some (b ! i) else None)"

definition truthyCell :: "string option \<Rightarrow> bool" where
  "truthyCell c = (case c of None \<Rightarrow> False | Some s \<Rightarrow> s \<noteq> [])"

definition getBoard :: "board \<Rightarrow> board" where
  "getBoard b = b"

definition isValidIndex :: "jsval \<Rightarrow> bool" where
  "isValidIndex index = (isInteger index \<and> (case index of JNum n \<Rightarrow> 0 \<le> n \<and> n \<le> 8 | _ \<Rightarrow> False))"

text \<open>The array position an index that passed \<open>isValidIndex\<close> denotes.\<close>

fun indexOf :: "jsval \<Rightarrow> nat" where
  "indexOf (JNum n) = nat n"
| "indexOf v = 0"

fun symbolText :: "jsval \<Rightarrow> string" where
  "symbolText (JStr s) = s"
| "symbolText v = []"

definition getCellValue :: "jsval \<Rightarrow> board \<Rightarrow> exn + string option" where
  "getCellValue index b =
     (if \<not> isValidIndex index then Inl (Error ''Invalid board index'')
      else Inr (cellAt b (indexOf index)))"

text \<open>
  \<open>setMark\<close> returns what the call returns or throws, and the board after the call.
  Writing at an index below the length replaces the cell; the guard on the index and the
  test \<^verbatim>\<open>=== ''\<close> (false on \<^verbatim>\<open>undefined\<close>) keep every write inside the array.
\<close>

definition setMark :: "jsval \<Rightarrow> jsval \<Rightarrow> board \<Rightarrow> (exn + bool) \<times> board" where
  "setMark index mark b =
     (if \<not> isValidIndex index then (Inl (Error ''Invalid board index''), b)
      else if \<not> isXO mark then (Inl (Error ''Invalid symbol. Must be \"X\" or \"O\"''), b)
      else if cellAt b (indexOf index) = Some [] then (Inr True, b[indexOf index := symbolText mark])
      else (Inr False, b))"

definition isFull :: "board \<Rightarrow> bool" where
  "isFull b = list_all (\<lambda>cell. cell \<noteq> []) b"

definition isEmpty :: "jsval \<Rightarrow> board \<Rightarrow> exn + bool" where
  "isEmpty index b =
     (if \<not> isValidIndex index then Inl (Error ''Invalid board index'')
      else Inr (cellAt b (indexOf index) = Some []))"

definition getEmptyPositions :: "board \<Rightarrow> nat list" where
  "getEmptyPositions b =
     map the (filter (\<lambda>index. index \<noteq> None)
       (map (\<lambda>(index, cell). if cell = [] then Some index else None) (enumerate 0 b)))"

text \<open>The test both scans apply to a combination \<^verbatim>\<open>[a, b, c]\<close>.\<close>

definition lineMatches :: "board \<Rightarrow> nat \<Rightarrow> nat \<Rightarrow> nat \<Rightarrow> bool" where
  "lineMatches brd a b c =
     (truthyCell (cellAt brd a) \<and> cellAt brd a = cellAt brd b \<and> cellAt brd a = cellAt brd c)"

fun checkWinner_scan :: "(nat \<times> nat \<times> nat) list \<Rightarrow> board \<Rightarrow> string option" where
  "checkWinner_scan [] brd = None"
| "checkWinner_scan ((a, b, c) # rest) brd =
     (if lineMatches brd a b c then cellAt brd a else checkWinner_scan rest brd)"

definition checkWinner :: "board \<Rightarrow> string option" where
  "checkWinner brd = checkWinner_scan winningCombinations brd"

fun getWinningCombination_scan ::
  "(nat \<times> nat \<times> nat) list \<Rightarrow> board \<Rightarrow> (nat \<times> nat \<times> nat) option" where
  "getWinningCombination_scan [] brd = None"
| "getWinningCombination_scan ((a, b, c) # rest) brd =
     (if lineMatches brd a b c then Some (a, b, c) else getWinningCombination_scan rest brd)"

definition getWinningCombination :: "board \<Rightarrow> (nat \<times> nat \<times> nat) option" where
  "getWinningCombination brd = getWinningCombination_scan winningCombinations brd"

record board_state =
  bs_board :: board
  bs_winner :: "string option"
  bs_isFull :: bool
  bs_isGameOver :: bool
  bs_winningCombination :: "(nat \<times> nat \<times> nat) option"

definition Gameboard_getGameState :: "board \<Rightarrow> board_state" where
  "Gameboard_getGameState b =
     (let winner = checkWinner b in
      \<lparr>bs_board = getBoard b,
       bs_winner = winner,
       bs_isFull = isFull b,
       bs_isGameOver = (winner \<noteq> None \<or> isFull b),
       bs_winningCombination = getWinningCombination b\<rparr>)"

record gameboard_json =
  board :: jsval

definition Gameboard_toJSON :: "board \<Rightarrow> gameboard_json" where
  "Gameboard_toJSON b = \<lparr>board = JArr (getBoard b)\<rparr>"

definition Gameboard_fromJSON :: "gameboard_json \<Rightarrow> board" where
  "Gameboard_fromJSON d =
     (let gameboard = Gameboard_new in
      if truthy (board d) \<and> isArray (board d) \<and> js_length (board d) = Some 9
      then (case board d of JArr xs \<Rightarrow> xs | _ \<Rightarrow> gameboard)
      else gameboard)"

section \<open>Game\<close>

text \<open>
  A \<^verbatim>\<open>Date\<close> is its time value in milliseconds. A history entry is the object
  \<^verbatim>\<open>{player, symbol, position, timestamp}\<close> that \<^verbatim>\<open>makeMove\<close> pushes.
\<close>

type_synonym date = int

record history_entry =
  h_player :: jsval
  h_symbol :: jsval
  h_position :: jsval
  h_timestamp :: date

record game =
  players :: "player list"
  gameboard :: board
  currentPlayerIndex :: nat
  gameActive :: bool
  gameHistory :: "history_entry list"
  startTime :: "date option"
  endTime :: "date option"

definition Game_new :: "player \<Rightarrow> player \<Rightarrow> board \<Rightarrow> game" where
  "Game_new player1 player2 gb =
     \<lparr>players = [player1, player2],
      gameboard = gb,
      currentPlayerIndex = 0,
      gameActive = False,
      gameHistory = [],
      startTime = None,
      endTime = None\<rparr>"

text \<open>\<^verbatim>\<open>this._players[this._currentPlayerIndex]\<close>; \<open>None\<close> is \<^verbatim>\<open>undefined\<close>.\<close>

definition getCurrentPlayer :: "game \<Rightarrow> player option" where
  "getCurrentPlayer g =
     (if currentPlayerIndex g < length (players g)
      then Some (players g ! currentPlayerIndex g) else None)"

definition getOtherPlayer :: "game \<Rightarrow> player option" where
  "getOtherPlayer g =
     (let otherIndex = (if currentPlayerIndex g = 0 then 1 else 0) in
      if otherIndex < length (players g) then Some (players g ! otherIndex) else None)"

definition isGameActive :: "game \<Rightarrow> bool" where
  "isGameActive g = gameActive g"

text \<open>\<^verbatim>\<open>startGame\<close> and \<^verbatim>\<open>restartGame\<close> read the clock once: \<open>now\<close>.\<close>

definition startGame :: "date \<Rightarrow> game \<Rightarrow> game" where
  "startGame now g =
     g\<lparr>gameActive := True,
       currentPlayerIndex := 0,
       gameHistory := [],
       startTime := Some now,
       endTime := None,
       gameboard := reset\<rparr>"

definition resetGame :: "game \<Rightarrow> game" where
  "resetGame g =
     g\<lparr>currentPlayerIndex := 0,
       gameActive := False,
       gameHistory := [],
       startTime := None,
       endTime := None,
       gameboard := reset\<rparr>"

definition restartGame :: "date \<Rightarrow> game \<Rightarrow> game" where
  "restartGame now g =
     startGame now (g\<lparr>currentPlayerIndex := 0, gameHistory := [], gameboard := reset\<rparr>)"

text \<open>
  The snapshot \<^verbatim>\<open>getGameState\<close> builds: the board's state spread into it, then the
  game's own entries. In \<open>st_currentPlayer\<close> and \<open>st_winningPlayer\<close>, \<open>None\<close> stands for
  \<^verbatim>\<open>undefined\<close> and \<^verbatim>\<open>null\<close> alike.
\<close>

record snapshot =
  st_board :: board
  st_winner :: "string option"
  st_isFull :: bool
  st_isGameOver :: bool
  st_winningCombination :: "(nat \<times> nat \<times> nat) option"
  st_currentPlayer :: "player option"
  st_players :: "player list"
  st_isGameActive :: bool
  st_winningPlayer :: "player option"
  st_gameHistory :: "history_entry list"
  st_startTime :: "date option"
  st_endTime :: "date option"
  st_gameDuration :: "int option"

definition getGameState :: "game \<Rightarrow> snapshot" where
  "getGameState g =
     (let boardState = Gameboard_getGameState (gameboard g);
          winner = bs_winner boardState;
          winningPlayer =
            (if truthyCell winner
             then List.find (\<lambda>p. Some (symbol p) = map_option JStr winner) (players g)
             else None)
      in \<lparr>st_board = bs_board boardState,
          st_winner = bs_winner boardState,
          st_isFull = bs_isFull boardState,
          st_isGameOver = bs_isGameOver boardState,
          st_winningCombination = bs_winningCombination boardState,
          st_currentPlayer = getCurrentPlayer g,
          st_players = players g,
          st_isGameActive = gameActive g,
          st_winningPlayer = winningPlayer,
          st_gameHistory = gameHistory g,
          st_startTime = startTime g,
          st_endTime = endTime g,
          st_gameDuration =
            (case (endTime g, startTime g) of
               (Some e, Some s) \<Rightarrow> Some (e - s)
             | _ \<Rightarrow> None)\<rparr>)"

record move_result =
  success :: bool
  error :: "string option"
  gameState :: snapshot

text \<open>
  \<open>makeMove index tMove tEnd g\<close> is the call \<^verbatim>\<open>makeMove(index)\<close> on the game \<open>g\<close>:
  what it returns (\<open>Inr\<close>) or throws (\<open>Inl\<close>), and the game after the call. \<open>tMove\<close> is
  the clock read for the history entry, \<open>tEnd\<close> the one read for \<^verbatim>\<open>_endTime\<close>.
  Reading \<^verbatim>\<open>symbol\<close> of an \<^verbatim>\<open>undefined\<close> current player is a \<^verbatim>\<open>TypeError\<close>.
\<close>

definition makeMove :: "jsval \<Rightarrow> date \<Rightarrow> date \<Rightarrow> game \<Rightarrow> (exn + move_result) \<times> game" where
  "makeMove index tMove tEnd g =
     (if \<not> gameActive g
      then (Inr \<lparr>success = False, error = Some ''Game is not active'',
                 gameState = getGameState g\<rparr>, g)
      else
        (case getCurrentPlayer g of
           None \<Rightarrow> (Inl TypeError, g)
         | Some currentPlayer \<Rightarrow>
             (case setMark index (symbol currentPlayer) (gameboard g) of
                (Inl e, b') \<Rightarrow> (Inl e, g\<lparr>gameboard := b'\<rparr>)
              | (Inr moveSuccessful, b') \<Rightarrow>
                  (let g1 = g\<lparr>gameboard := b'\<rparr> in
                   if \<not> moveSuccessful
                   then (Inr \<lparr>success = False, error = Some ''Position already occupied'',
                              gameState = getGameState g1\<rparr>, g1)
                   else
                     (let g2 = g1\<lparr>gameHistory := gameHistory g1 @
                                  [\<lparr>h_player = name currentPlayer,
                                    h_symbol = symbol currentPlayer,
                                    h_position = index,
                                    h_timestamp = tMove\<rparr>]\<rparr>;
                          winner = checkWinner (gameboard g2);
                          full = isFull (gameboard g2);
                          g3 = (if truthyCell winner \<or> full
                                then g2\<lparr>gameActive := False, endTime := Some tEnd\<rparr>
                                else g2\<lparr>currentPlayerIndex :=
                                         (if currentPlayerIndex g2 = 0 then 1 else 0)\<rparr>)
                      in (Inr \<lparr>success = True, error = None,
                                gameState = getGameState g3\<rparr>, g3))))))"

definition getPossibleMoves :: "game \<Rightarrow> nat list" where
  "getPossibleMoves g = (if \<not> gameActive g then [] else getEmptyPositions (gameboard g))"

record game_json =
  gj_players :: "player_json list"
  gj_gameboard :: gameboard_json
  gj_currentPlayerIndex :: nat
  gj_gameActive :: bool
  gj_gameHistory :: "history_entry list"
  gj_startTime :: "date option"
  gj_endTime :: "date option"

definition Game_toJSON :: "game \<Rightarrow> game_json" where
  "Game_toJSON g =
     \<lparr>gj_players = map Player_toJSON (players g),
      gj_gameboard = Gameboard_toJSON (gameboard g),
      gj_currentPlayerIndex = currentPlayerIndex g,
      gj_gameActive = gameActive g,
      gj_gameHistory = gameHistory g,
      gj_startTime = startTime g,
      gj_endTime = endTime g\<rparr>"

text \<open>
  \<^verbatim>\<open>Game.fromJSON\<close> on data of the shape \<^verbatim>\<open>toJSON\<close> writes. The source passes
  \<^verbatim>\<open>players[0]\<close> and \<^verbatim>\<open>players[1]\<close> to the constructor; with fewer than two entries
  it would build a game around \<^verbatim>\<open>undefined\<close> players, which the record \<open>game\<close> does
  not represent: the model answers \<open>None\<close> there. The operands of \<^verbatim>\<open>||\<close> and
  \<^verbatim>\<open>?:\<close> are tested for truthiness: a number is falsy when 0, an array and a
  \<^verbatim>\<open>Date\<close> never, and \<^verbatim>\<open>new Date(d)\<close> has the time value of \<open>d\<close>.
\<close>

definition Game_fromJSON :: "game_json \<Rightarrow> game option" where
  "Game_fromJSON d =
     (let ps = map Player_fromJSON (gj_players d);
          gb = Gameboard_fromJSON (gj_gameboard d)
      in case ps of
           p0 # p1 # rest \<Rightarrow>
             Some ((Game_new p0 p1 gb)
               \<lparr>currentPlayerIndex :=
                  (if gj_currentPlayerIndex d \<noteq> 0 then gj_currentPlayerIndex d else 0),
                gameActive := (if gj_gameActive d then gj_gameActive d else False),
                gameHistory := gj_gameHistory d,
                startTime := (case gj_startTime d of Some t \<Rightarrow> Some t | None \<Rightarrow> None),
                endTime := (case gj_endTime d of Some t \<Rightarrow> Some t | None \<Rightarrow> None)\<rparr>)
         | _ \<Rightarrow> None)"

section \<open>Call sequences and reachable states\<close>

text \<open>
  A caller that catches what \<^verbatim>\<open>makeMove\<close> throws goes on with the game as the call left
  it. \<open>makeMoves\<close> runs a list of calls, each with its index and its two clock readings.
\<close>

fun makeMoves :: "(jsval \<times> date \<times> date) list \<Rightarrow> game \<Rightarrow> game" where
  "makeMoves [] g = g"
| "makeMoves ((index, tMove, tEnd) # calls) g = makeMoves calls (snd (makeMove index tMove tEnd g))"

text \<open>A call is accepted when it returns a result whose \<^verbatim>\<open>success\<close> is true.\<close>

definition accepted :: "exn + move_result \<Rightarrow> bool" where
  "accepted r = (case r of Inl e \<Rightarrow> False | Inr res \<Rightarrow> success res)"

text \<open>The index of the player to move at each accepted call of a run, in order.\<close>

fun movers :: "(jsval \<times> date \<times> date) list \<Rightarrow> game \<Rightarrow> nat list" where
  "movers [] g = []"
| "movers ((index, tMove, tEnd) # calls) g =
     (if accepted (fst (makeMove index tMove tEnd g))
      then currentPlayerIndex g # movers calls (snd (makeMove index tMove tEnd g))
      else movers calls (snd (makeMove index tMove tEnd g)))"

text \<open>
  The states of a Gameboard object: built by the constructor or by \<^verbatim>\<open>fromJSON\<close>, then
  changed by \<^verbatim>\<open>setMark\<close> and \<^verbatim>\<open>reset\<close>. The states of a Game object: built by the
  constructor from two Player objects and a Gameboard object, then changed by its
  methods.
\<close>

inductive gameboard_state :: "board \<Rightarrow> bool" where
  gb_new: "gameboard_state Gameboard_new"
| gb_fromJSON: "gameboard_state (Gameboard_fromJSON d)"
| gb_setMark: "gameboard_state b \<Longrightarrow> gameboard_state (snd (setMark index mark b))"
| gb_reset: "gameboard_state b \<Longrightarrow> gameboard_state reset"

inductive reachable :: "game \<Rightarrow> bool" where
  r_new: "gameboard_state gb \<Longrightarrow> reachable (Game_new player1 player2 gb)"
| r_startGame: "reachable g \<Longrightarrow> reachable (startGame now g)"
| r_makeMove: "reachable g \<Longrightarrow> reachable (snd (makeMove index tMove tEnd g))"
| r_resetGame: "reachable g \<Longrightarrow> reachable (resetGame g)"
| r_restartGame: "reachable g \<Longrightarrow> reachable (restartGame now g)"

section \<open>Notions of the specification\<close>

text \<open>
  The eight triples as the specification lists them: the three rows, the three columns and
  the two diagonals of the row-major 3x3 grid. A triple is uniform with mark \<open>m\<close> when
  its three cells hold the same non-empty \<open>m\<close>.
\<close>

definition spec_triples :: "(nat \<times> nat \<times> nat) set" where
  "spec_triples =
     set ([(3 * r, 3 * r + 1, 3 * r + 2). r \<leftarrow> [0..<3]] @
          [(c, c + 3, c + 6). c \<leftarrow> [0..<3]] @
          [(0, 4, 8), (2, 4, 6)])"

definition uniform :: "board \<Rightarrow> nat \<times> nat \<times> nat \<Rightarrow> string \<Rightarrow> bool" where
  "uniform brd t m =
     (case t of (x, y, z) \<Rightarrow>
        m \<noteq> [] \<and> cellAt brd x = Some m \<and> cellAt brd y = Some m \<and> cellAt brd z = Some m)"

text \<open>
  Two predicates for the proofs: the condition under which \<open>makeMove\<close> places a mark, and
  the shape every reachable game has.
\<close>

definition placeable :: "jsval \<Rightarrow> game \<Rightarrow> bool" where
  "placeable index g =
     (gameActive g \<and> isValidIndex index \<and> cellAt (gameboard g) (indexOf index) = Some []
      \<and> (case getCurrentPlayer g of None \<Rightarrow> False | Some p \<Rightarrow> isXO (symbol p)))"

definition wellFormed :: "game \<Rightarrow> bool" where
  "wellFormed g =
     (length (players g) = 2 \<and> currentPlayerIndex g < 2 \<and> length (gameboard g) = 9)"

text \<open>The quantity of the move count invariant.\<close>

definition moveCount :: "game \<Rightarrow> nat" where
  "moveCount g = length (gameHistory g) + length (getEmptyPositions (gameboard g))"

section \<open>The games of tests.js\<close>

text \<open>
  The players the test suite constructs, \<^verbatim>\<open>new Player('Alice', 'X')\<close>,
  \<^verbatim>\<open>new Player('Bob', 'O')\<close> and \<^verbatim>\<open>new Player('Bob', 'Z')\<close>, and started games
  over them.
\<close>

definition alice :: player where
  "alice = Player_new (JStr ''Alice'') (JStr ''X'')"

definition bob :: player where
  "bob = Player_new (JStr ''Bob'') (JStr ''O'')"


definition startedGame :: game where
  "startedGame = startGame 0 (Game_new alice bob Gameboard_new)"


text \<open>
  The integration test's game, one move before its end: Alice holds cells 0 and 1, Bob
  cells 3 and 4, and Alice is to move.
\<close>

definition topRowGame :: game where
  "topRowGame =
     makeMoves [(JNum 0, 1, 1), (JNum 3, 2, 2), (JNum 1, 3, 3), (JNum 4, 4, 4)] startedGame"

section \<open>The win scan\<close>

lemma winningCombinations_spec: "set winningCombinations = spec_triples"
  by (simp add: winningCombinations_def spec_triples_def upt_rec numeral_2_eq_2)

lemma lineMatches_uniform: "lineMatches brd a b c = (\<exists>m. uniform brd (a, b, c) m)"
  by (auto simp: lineMatches_def uniform_def truthyCell_def split: option.splits)

lemma checkWinner_scan_None:
  "(checkWinner_scan cs brd = None) = (\<forall>(a, b, c) \<in> set cs. \<not> lineMatches brd a b c)"
  by (induction cs brd rule: checkWinner_scan.induct)
     (auto simp: lineMatches_def truthyCell_def split: option.splits)

lemma getWinningCombination_scan_None:
  "(getWinningCombination_scan cs brd = None) =
     (\<forall>(a, b, c) \<in> set cs. \<not> lineMatches brd a b c)"
  by (induction cs brd rule: getWinningCombination_scan.induct) auto

lemma getWinningCombination_scan_Some:
  "getWinningCombination_scan cs brd = Some (x, y, z) \<Longrightarrow>
     (x, y, z) \<in> set cs \<and> lineMatches brd x y z \<and> checkWinner_scan cs brd = cellAt brd x"
  by (induction cs brd rule: getWinningCombination_scan.induct) (auto split: if_splits)

text \<open>
  C1. For every board, \<open>checkWinner\<close> returns a mark exactly when one of the eight triples
  is uniform, \<open>getWinningCombination\<close> returns a triple under the same condition, and the
  triple it returns is one of the eight and is uniform with the mark \<open>checkWinner\<close> returns.
\<close>

theorem checkWinner_getWinningCombination_agree:
  "((checkWinner brd \<noteq> None) = (\<exists>t \<in> spec_triples. \<exists>m. uniform brd t m))
   \<and> ((getWinningCombination brd \<noteq> None) = (\<exists>t \<in> spec_triples. \<exists>m. uniform brd t m))
   \<and> (case getWinningCombination brd of
         None \<Rightarrow> checkWinner brd = None
       | Some t \<Rightarrow> t \<in> spec_triples \<and> (\<exists>m. checkWinner brd = Some m \<and> uniform brd t m))"
proof -
  have win: "(checkWinner brd \<noteq> None) = (\<exists>t \<in> spec_triples. \<exists>m. uniform brd t m)"
    unfolding checkWinner_def checkWinner_scan_None winningCombinations_spec
    by (auto simp: lineMatches_uniform)
  have comb: "(getWinningCombination brd \<noteq> None) = (\<exists>t \<in> spec_triples. \<exists>m. uniform brd t m)"
    unfolding getWinningCombination_def getWinningCombination_scan_None winningCombinations_spec
    by (auto simp: lineMatches_uniform)
  have same: "(case getWinningCombination brd of
         None \<Rightarrow> checkWinner brd = None
       | Some t \<Rightarrow> t \<in> spec_triples \<and> (\<exists>m. checkWinner brd = Some m \<and> uniform brd t m))"
  proof (cases "getWinningCombination brd")
    case None
    then show ?thesis using win comb by simp
  next
    case (Some t)
    obtain x y z where t: "t = (x, y, z)" by (cases t) auto
    from Some t have "getWinningCombination_scan winningCombinations brd = Some (x, y, z)"
      by (simp add: getWinningCombination_def)
    from getWinningCombination_scan_Some[OF this]
    have "(x, y, z) \<in> spec_triples" "lineMatches brd x y z" "checkWinner brd = cellAt brd x"
      by (simp_all add: winningCombinations_spec checkWinner_def)
    then show ?thesis using Some t
      by (auto simp: lineMatches_uniform uniform_def)
  qed
  from win comb same show ?thesis by blast
qed

theorem checkWinner_getWinningCombination_agree_witness:
  "getWinningCombination [''X'', ''O'', ''O'', [], ''X'', [], [], [], ''X''] = Some (0, 4, 8)
   \<and> checkWinner [''X'', ''O'', ''O'', [], ''X'', [], [], [], ''X''] = Some ''X''
   \<and> (\<exists>t \<in> spec_triples. \<exists>m. uniform [''X'', ''O'', ''O'', [], ''X'', [], [], [], ''X''] t m)"
proof -
  have g: "getWinningCombination [''X'', ''O'', ''O'', [], ''X'', [], [], [], ''X''] = Some (0, 4, 8)"
    by (simp add: getWinningCombination_def winningCombinations_def lineMatches_def
          cellAt_def truthyCell_def)
  have c: "checkWinner [''X'', ''O'', ''O'', [], ''X'', [], [], [], ''X''] = Some ''X''"
    by (simp add: checkWinner_def winningCombinations_def lineMatches_def cellAt_def
          truthyCell_def)
  show ?thesis
    using checkWinner_getWinningCombination_agree
            [of "[''X'', ''O'', ''O'', [], ''X'', [], [], [], ''X'']"] g c
    by simp
qed

section \<open>What a call of makeMove changes\<close>

lemma length_reset: "length reset = 9"
  by (simp add: reset_def)

lemma length_Gameboard_fromJSON: "length (Gameboard_fromJSON d) = 9"
  by (cases "board d") (simp_all add: Gameboard_fromJSON_def Gameboard_new_def reset_def Let_def)

lemma length_setMark: "length (snd (setMark index mark b)) = length b"
  by (simp add: setMark_def)

lemma gameboard_state_length: "gameboard_state b \<Longrightarrow> length b = 9"
  by (induction rule: gameboard_state.induct)
     (simp_all add: Gameboard_new_def length_reset length_Gameboard_fromJSON length_setMark)

lemma makeMove_accepted_iff:
  "accepted (fst (makeMove index tMove tEnd g)) = placeable index g"
  by (auto simp: makeMove_def accepted_def placeable_def setMark_def Let_def
           split: option.splits)

lemma makeMove_rejected_state:
  "\<not> placeable index g \<Longrightarrow> snd (makeMove index tMove tEnd g) = g"
  by (auto simp: makeMove_def placeable_def setMark_def Let_def split: option.splits)

lemma makeMove_placed_board:
  "placeable index g \<Longrightarrow> getCurrentPlayer g = Some p \<Longrightarrow>
   gameboard (snd (makeMove index tMove tEnd g)) =
     (gameboard g)[indexOf index := symbolText (symbol p)]"
  by (auto simp: makeMove_def placeable_def setMark_def Let_def split: option.splits)

lemma makeMove_placed_history:
  "placeable index g \<Longrightarrow> 
   length (gameHistory (snd (makeMove index tMove tEnd g))) = Suc (length (gameHistory g))"
  by (auto simp: makeMove_def placeable_def setMark_def Let_def split: option.splits)

lemma makeMove_placed_index:
  "placeable index g \<Longrightarrow>
   currentPlayerIndex (snd (makeMove index tMove tEnd g)) =
     (if gameActive (snd (makeMove index tMove tEnd g))
      then (if currentPlayerIndex g = 0 then 1 else 0) else currentPlayerIndex g)"
  by (auto simp: makeMove_def placeable_def setMark_def Let_def split: option.splits)

lemma makeMove_players: "players (snd (makeMove index tMove tEnd g)) = players g"
  by (auto simp: makeMove_def setMark_def Let_def split: option.splits)

lemma makeMove_length_board:
  "length (gameboard (snd (makeMove index tMove tEnd g))) = length (gameboard g)"
  by (auto simp: makeMove_def setMark_def Let_def split: option.splits)

lemma makeMove_index_bound:
  "currentPlayerIndex g < 2 \<Longrightarrow> currentPlayerIndex (snd (makeMove index tMove tEnd g)) < 2"
  by (cases "placeable index g") (simp_all add: makeMove_placed_index makeMove_rejected_state)

lemma reachable_wellFormed: "reachable g \<Longrightarrow> wellFormed g"
proof (induction rule: reachable.induct)
  case (r_new gb player1 player2)
  then show ?case by (simp add: wellFormed_def Game_new_def gameboard_state_length)
next
  case (r_startGame g now)
  then show ?case by (simp add: wellFormed_def startGame_def length_reset)
next
  case (r_makeMove g index tMove tEnd)
  then show ?case
    by (simp add: wellFormed_def makeMove_players makeMove_length_board makeMove_index_bound)
next
  case (r_resetGame g)
  then show ?case by (simp add: wellFormed_def resetGame_def length_reset)
next
  case (r_restartGame g now)
  then show ?case by (simp add: wellFormed_def restartGame_def startGame_def length_reset)
qed

lemma wellFormed_currentPlayer:
  "wellFormed g \<Longrightarrow> getCurrentPlayer g = Some (players g ! currentPlayerIndex g)"
  by (simp add: wellFormed_def getCurrentPlayer_def)

section \<open>Evaluating the example games\<close>

lemma reachable_startedGame: "reachable startedGame"
  unfolding startedGame_def by (intro reachable.intros gameboard_state.intros)

lemma startedGame_eval:
  "startedGame = \<lparr>players = [\<lparr>name = JStr ''Alice'', symbol = JStr ''X''\<rparr>,
       \<lparr>name = JStr ''Bob'', symbol = JStr ''O''\<rparr>],
     gameboard = [[], [], [], [], [], [], [], [], []],
     currentPlayerIndex = 0, gameActive = True, gameHistory = [],
     startTime = Some 0, endTime = None\<rparr>"
  by (simp add: startedGame_def startGame_def Game_new_def alice_def bob_def Player_new_def
       Gameboard_new_def reset_def numeral_eq_Suc)



lemmas eval_defs = makeMove_def getCurrentPlayer_def setMark_def isValidIndex_def isXO_def
  cellAt_def checkWinner_def winningCombinations_def lineMatches_def truthyCell_def isFull_def
  Let_def

lemma after0: "snd (makeMove (JNum 0) 1 2 startedGame) =
   \<lparr>players = [\<lparr>name = JStr ''Alice'', symbol = JStr ''X''\<rparr>,
       \<lparr>name = JStr ''Bob'', symbol = JStr ''O''\<rparr>],
     gameboard = [''X'', [], [], [], [], [], [], [], []],
     currentPlayerIndex = 1, gameActive = True,
     gameHistory = [\<lparr>h_player = JStr ''Alice'', h_symbol = JStr ''X'', h_position = JNum 0, h_timestamp = 1\<rparr>],
     startTime = Some 0, endTime = None\<rparr>"
  by (simp add: startedGame_eval eval_defs)


lemma isValidIndex_iff: "isValidIndex index = (\<exists>n. index = JNum n \<and> 0 \<le> n \<and> n \<le> 8)"
  by (cases index) (simp_all add: isValidIndex_def)

section \<open>Rejected calls\<close>

text \<open>
  C5. On a game that is not active, \<open>makeMove\<close> returns, for every index, the failure
  \<^verbatim>\<open>'Game is not active'\<close> with the snapshot of the game as it was, and leaves the whole
  game (board, history, current player index, timestamps) as it was.
\<close>

theorem makeMove_inactive:
  "\<not> gameActive g \<Longrightarrow>
     makeMove index tMove tEnd g =
       (Inr \<lparr>success = False, error = Some ''Game is not active'', gameState = getGameState g\<rparr>, g)"
  by (simp add: makeMove_def)

theorem makeMove_inactive_witness:
  "\<not> gameActive (Game_new alice bob Gameboard_new)
   \<and> makeMove (JNum 4) 1 2 (Game_new alice bob Gameboard_new) =
       (Inr \<lparr>success = False, error = Some ''Game is not active'',
             gameState = getGameState (Game_new alice bob Gameboard_new)\<rparr>,
        Game_new alice bob Gameboard_new)"
proof -
  have h: "\<not> gameActive (Game_new alice bob Gameboard_new)"
    by (simp add: Game_new_def)
  show ?thesis using h makeMove_inactive [OF h, of "JNum 4" 1 2] by simp
qed

text \<open>
  C6, as stated, fails: on an active game an index outside 0..8 makes \<open>makeMove\<close> throw
  \<^verbatim>\<open>Error('Invalid board index')\<close>; no result object is returned.
\<close>

theorem makeMove_invalid_index_not_reported:
  "reachable startedGame \<and> gameActive startedGame
   \<and> fst (makeMove (JNum 9) 1 2 startedGame) = Inl (Error ''Invalid board index'')"
proof -
  have "gameActive startedGame" by (simp add: startedGame_eval)
  moreover have "fst (makeMove (JNum 9) 1 2 startedGame) = Inl (Error ''Invalid board index'')"
    by (simp add: startedGame_eval makeMove_def getCurrentPlayer_def setMark_def isValidIndex_def)
  ultimately show ?thesis using reachable_startedGame by simp
qed

text \<open>
  C6, amended. On every reachable active game, for every index that is not an integer in
  0..8, \<open>makeMove\<close> throws \<^verbatim>\<open>Error('Invalid board index')\<close>, raised by \<open>setMark\<close> and
  not caught, and leaves the game as it was.
\<close>

theorem makeMove_invalid_index_throws:
  assumes "reachable g" and "gameActive g"
    and "\<not> (\<exists>n. index = JNum n \<and> 0 \<le> n \<and> n \<le> 8)"
  shows "makeMove index tMove tEnd g = (Inl (Error ''Invalid board index''), g)"
proof -
  from assms(1) have "wellFormed g" by (rule reachable_wellFormed)
  then obtain p where p: "getCurrentPlayer g = Some p"
    by (simp add: wellFormed_currentPlayer)
  from assms(3) have "\<not> isValidIndex index" by (simp add: isValidIndex_iff)
  with p assms(2) show ?thesis
    by (simp add: makeMove_def setMark_def)
qed

theorem makeMove_invalid_index_throws_witness:
  "reachable startedGame \<and> gameActive startedGame
   \<and> makeMove JFrac 1 2 startedGame = (Inl (Error ''Invalid board index''), startedGame)"
proof -
  have a: "gameActive startedGame" by (simp add: startedGame_eval)
  have n: "\<not> (\<exists>n. JFrac = JNum n \<and> 0 \<le> n \<and> n \<le> 8)" by simp
  show ?thesis
    using makeMove_invalid_index_throws [OF reachable_startedGame a n, of 1 2] a
      reachable_startedGame
    by simp
qed


text \<open>
  With players as the specification has them the refusal is as it says: on every reachable
  active game whose player to move holds the symbol \<^verbatim>\<open>'X'\<close> or \<^verbatim>\<open>'O'\<close>, and for every
  index in 0..8 whose cell is occupied, \<open>makeMove\<close> returns the failure
  \<^verbatim>\<open>'Position already occupied'\<close> with the snapshot of the game as it was, and the game
  (board, history, current player index, active flag) is left as it was.
\<close>

lemma makeMove_occupied:
  assumes "reachable g" and "gameActive g" and "0 \<le> n" and "n \<le> 8"
    and "gameboard g ! nat n \<noteq> []"
    and "getCurrentPlayer g = Some p"
    and "symbol p = JStr ''X'' \<or> symbol p = JStr ''O''"
  shows "makeMove (JNum n) tMove tEnd g =
           (Inr \<lparr>success = False, error = Some ''Position already occupied'',
                 gameState = getGameState g\<rparr>, g)"
proof -
  from assms(1) have wf: "wellFormed g" by (rule reachable_wellFormed)
  with assms(3,4) have "nat n < length (gameboard g)" by (simp add: wellFormed_def)
  with assms(5) have occ: "cellAt (gameboard g) (nat n) \<noteq> Some []"
    by (simp add: cellAt_def)
  from assms(3,4) have v: "isValidIndex (JNum n)" by (simp add: isValidIndex_def)
  from assms(7) have xo: "isXO (symbol p)" by (simp add: isXO_def)
  show ?thesis
    using assms(2,6) occ v xo by (simp add: makeMove_def setMark_def)
qed

lemma makeMove_occupied_witness:
  "reachable (snd (makeMove (JNum 0) 1 2 startedGame))
   \<and> gameActive (snd (makeMove (JNum 0) 1 2 startedGame))
   \<and> gameboard (snd (makeMove (JNum 0) 1 2 startedGame)) ! nat 0 \<noteq> []
   \<and> getCurrentPlayer (snd (makeMove (JNum 0) 1 2 startedGame)) = Some bob
   \<and> symbol bob = JStr ''O''
   \<and> makeMove (JNum 0) 3 4 (snd (makeMove (JNum 0) 1 2 startedGame)) =
       (Inr \<lparr>success = False, error = Some ''Position already occupied'',
             gameState = getGameState (snd (makeMove (JNum 0) 1 2 startedGame))\<rparr>,
        snd (makeMove (JNum 0) 1 2 startedGame))"
proof -
  have r: "reachable (snd (makeMove (JNum 0) 1 2 startedGame))"
    by (intro reachable.intros reachable_startedGame)
  have a: "gameActive (snd (makeMove (JNum 0) 1 2 startedGame))" by (simp add: after0)
  have o: "gameboard (snd (makeMove (JNum 0) 1 2 startedGame)) ! nat 0 \<noteq> []"
    by (simp add: after0)
  have p: "getCurrentPlayer (snd (makeMove (JNum 0) 1 2 startedGame)) = Some bob"
    by (simp add: after0 getCurrentPlayer_def bob_def Player_new_def)
  have s: "symbol bob = JStr ''X'' \<or> symbol bob = JStr ''O''"
    by (simp add: bob_def Player_new_def)
  have b: "symbol bob = JStr ''O''" by (simp add: bob_def Player_new_def)
  from makeMove_occupied [OF r a _ _ o p s, of 3 4] r a o p b show ?thesis by simp
qed

section \<open>The snapshot of an accepted move\<close>

lemma reachable_makeMoves: "reachable g \<Longrightarrow> reachable (makeMoves calls g)"
  by (induction calls g rule: makeMoves.induct) (auto intro: reachable.intros)

lemma topRowGame_eval:
  "topRowGame =
    \<lparr>players = [\<lparr>name = JStr ''Alice'', symbol = JStr ''X''\<rparr>,
                \<lparr>name = JStr ''Bob'', symbol = JStr ''O''\<rparr>],
     gameboard = [''X'', ''X'', [], ''O'', ''O'', [], [], [], []],
     currentPlayerIndex = 0, gameActive = True,
     gameHistory =
       [\<lparr>h_player = JStr ''Alice'', h_symbol = JStr ''X'', h_position = JNum 0, h_timestamp = 1\<rparr>,
        \<lparr>h_player = JStr ''Bob'', h_symbol = JStr ''O'', h_position = JNum 3, h_timestamp = 2\<rparr>,
        \<lparr>h_player = JStr ''Alice'', h_symbol = JStr ''X'', h_position = JNum 1, h_timestamp = 3\<rparr>,
        \<lparr>h_player = JStr ''Bob'', h_symbol = JStr ''O'', h_position = JNum 4, h_timestamp = 4\<rparr>],
     startTime = Some 0, endTime = None\<rparr>"
  by (simp add: topRowGame_def startedGame_eval eval_defs)

lemma topRowGame_win:
  "snd (makeMove (JNum 2) 5 6 topRowGame) =
    \<lparr>players = [\<lparr>name = JStr ''Alice'', symbol = JStr ''X''\<rparr>,
                \<lparr>name = JStr ''Bob'', symbol = JStr ''O''\<rparr>],
     gameboard = [''X'', ''X'', ''X'', ''O'', ''O'', [], [], [], []],
     currentPlayerIndex = 0, gameActive = False,
     gameHistory =
       [\<lparr>h_player = JStr ''Alice'', h_symbol = JStr ''X'', h_position = JNum 0, h_timestamp = 1\<rparr>,
        \<lparr>h_player = JStr ''Bob'', h_symbol = JStr ''O'', h_position = JNum 3, h_timestamp = 2\<rparr>,
        \<lparr>h_player = JStr ''Alice'', h_symbol = JStr ''X'', h_position = JNum 1, h_timestamp = 3\<rparr>,
        \<lparr>h_player = JStr ''Bob'', h_symbol = JStr ''O'', h_position = JNum 4, h_timestamp = 4\<rparr>,
        \<lparr>h_player = JStr ''Alice'', h_symbol = JStr ''X'', h_position = JNum 2, h_timestamp = 5\<rparr>],
     startTime = Some 0, endTime = Some 6\<rparr>"
  by (simp add: topRowGame_eval eval_defs)

lemma makeMove_result:
  "fst (makeMove index tMove tEnd g) = Inr res \<Longrightarrow>
     gameState res = getGameState (snd (makeMove index tMove tEnd g))"
  by (auto simp: makeMove_def setMark_def Let_def split: option.splits if_splits)

lemma checkWinner_scan_truthy:
  "truthyCell (checkWinner_scan cs brd) = (checkWinner_scan cs brd \<noteq> None)"
  by (induction cs brd rule: checkWinner_scan.induct)
     (auto simp: lineMatches_def truthyCell_def split: option.splits)

lemma checkWinner_truthy: "truthyCell (checkWinner brd) = (checkWinner brd \<noteq> None)"
  by (simp add: checkWinner_def checkWinner_scan_truthy)

lemma makeMove_placed_active:
  "placeable index g \<Longrightarrow>
   gameActive (snd (makeMove index tMove tEnd g)) =
     (checkWinner (gameboard (snd (makeMove index tMove tEnd g))) = None
      \<and> \<not> isFull (gameboard (snd (makeMove index tMove tEnd g))))"
  by (auto simp: makeMove_def placeable_def setMark_def Let_def checkWinner_truthy
        split: option.splits)

text \<open>
  C9, as stated, fails: the move that wins the integration test's game is accepted and
  ends the game, and the snapshot it returns reports Alice, who made the move, as the
  current player, not \<^verbatim>\<open>null\<close>.
\<close>

theorem makeMove_terminal_currentPlayer_not_null:
  "reachable topRowGame
   \<and> fst (makeMove (JNum 2) 5 6 topRowGame) =
       Inr \<lparr>success = True, error = None,
            gameState = getGameState (snd (makeMove (JNum 2) 5 6 topRowGame))\<rparr>
   \<and> \<not> gameActive (snd (makeMove (JNum 2) 5 6 topRowGame))
   \<and> checkWinner (gameboard (snd (makeMove (JNum 2) 5 6 topRowGame))) = Some ''X''
   \<and> st_currentPlayer (getGameState (snd (makeMove (JNum 2) 5 6 topRowGame))) = Some alice"
proof -
  have r: "reachable topRowGame"
    unfolding topRowGame_def by (rule reachable_makeMoves [OF reachable_startedGame])
  have f: "fst (makeMove (JNum 2) 5 6 topRowGame) =
       Inr \<lparr>success = True, error = None,
            gameState = getGameState (snd (makeMove (JNum 2) 5 6 topRowGame))\<rparr>"
    unfolding topRowGame_win by (simp add: topRowGame_eval eval_defs)
  have c: "st_currentPlayer (getGameState (snd (makeMove (JNum 2) 5 6 topRowGame))) = Some alice"
    unfolding topRowGame_win
    by (simp add: getGameState_def getCurrentPlayer_def alice_def Player_new_def Let_def)
  have w: "checkWinner (gameboard (snd (makeMove (JNum 2) 5 6 topRowGame))) = Some ''X''"
    unfolding topRowGame_win
    by (simp add: checkWinner_def winningCombinations_def lineMatches_def cellAt_def truthyCell_def)
  from r f c w show ?thesis by (simp add: topRowGame_win)
qed

text \<open>
  C9, amended. For every accepted move on a reachable game, the snapshot reports the player
  at \<open>currentPlayerIndex\<close> of the game after the move, never \<^verbatim>\<open>null\<close>. The game is
  still active afterwards exactly when there is no winner and the board is not full; then
  the index has flipped and the snapshot reports the player whose turn it is. When the
  move ends the game the index is not flipped, and the snapshot reports the player who
  made the move.
\<close>

theorem makeMove_snapshot_currentPlayer:
  assumes "reachable g" and "makeMove index tMove tEnd g = (Inr res, g')" and "success res"
  shows "st_currentPlayer (gameState res) = Some (players g' ! currentPlayerIndex g')
     \<and> gameActive g' = (checkWinner (gameboard g') = None \<and> \<not> isFull (gameboard g'))
     \<and> (if gameActive g'
         then currentPlayerIndex g' = (if currentPlayerIndex g = 0 then 1 else 0)
         else currentPlayerIndex g' = currentPlayerIndex g)
     \<and> players g' = players g \<and> currentPlayerIndex g' < length (players g')"
proof -
  from assms(2) have f: "fst (makeMove index tMove tEnd g) = Inr res"
    and s: "snd (makeMove index tMove tEnd g) = g'" by simp_all
  from f assms(3) have "accepted (fst (makeMove index tMove tEnd g))"
    by (simp add: accepted_def)
  then have pl: "placeable index g" by (simp add: makeMove_accepted_iff)
  have "reachable (snd (makeMove index tMove tEnd g))" using assms(1) by (rule r_makeMove)
  then have wf: "wellFormed g'" using s reachable_wellFormed by simp
  from makeMove_result [OF f] s have "gameState res = getGameState g'" by simp
  then have cur: "st_currentPlayer (gameState res) = Some (players g' ! currentPlayerIndex g')"
    using wellFormed_currentPlayer [OF wf] by (simp add: getGameState_def Let_def)
  from makeMove_placed_active [OF pl, of tMove tEnd] s
  have act: "gameActive g' = (checkWinner (gameboard g') = None \<and> \<not> isFull (gameboard g'))"
    by simp
  from makeMove_placed_index [OF pl, of tMove tEnd] s
  have idx: "currentPlayerIndex g' =
     (if gameActive g' then (if currentPlayerIndex g = 0 then 1 else 0) else currentPlayerIndex g)"
    by simp
  from makeMove_players [of index tMove tEnd g] s have pls: "players g' = players g" by simp
  from wf have "currentPlayerIndex g' < length (players g')" by (simp add: wellFormed_def)
  with cur act idx pls show ?thesis by simp
qed

theorem makeMove_snapshot_currentPlayer_witness:
  "reachable topRowGame
   \<and> success \<lparr>success = True, error = None,
            gameState = getGameState (snd (makeMove (JNum 2) 5 6 topRowGame))\<rparr>
   \<and> st_currentPlayer (getGameState (snd (makeMove (JNum 2) 5 6 topRowGame))) =
        Some (players (snd (makeMove (JNum 2) 5 6 topRowGame)) ! 0)
   \<and> currentPlayerIndex (snd (makeMove (JNum 2) 5 6 topRowGame)) = currentPlayerIndex topRowGame"
proof -
  have r: "reachable topRowGame"
    unfolding topRowGame_def by (rule reachable_makeMoves [OF reachable_startedGame])
  have f: "fst (makeMove (JNum 2) 5 6 topRowGame) =
       Inr \<lparr>success = True, error = None,
            gameState = getGameState (snd (makeMove (JNum 2) 5 6 topRowGame))\<rparr>"
    unfolding topRowGame_win by (simp add: topRowGame_eval eval_defs)
  then have m: "makeMove (JNum 2) 5 6 topRowGame =
       (Inr \<lparr>success = True, error = None,
            gameState = getGameState (snd (makeMove (JNum 2) 5 6 topRowGame))\<rparr>,
        snd (makeMove (JNum 2) 5 6 topRowGame))"
    by (simp add: prod_eq_iff)
  have na: "\<not> gameActive (snd (makeMove (JNum 2) 5 6 topRowGame))"
    by (simp add: topRowGame_win)
  have i: "currentPlayerIndex (snd (makeMove (JNum 2) 5 6 topRowGame)) = 0"
    by (simp add: topRowGame_win)
  from makeMove_snapshot_currentPlayer [OF r m] na i r show ?thesis by simp
qed

section \<open>Player construction\<close>

text \<open>
  C7 does not hold of the constructor: it returns a Player holding the symbol \<^verbatim>\<open>'Z'\<close>,
  and one holding the empty name, where the setters reject the same values and the tests
  \<^verbatim>\<open>'Player - Invalid symbol throws error'\<close> and \<^verbatim>\<open>'Player - Empty name throws error'\<close>
  expect the constructor to throw.
\<close>

theorem Player_new_accepts_invalid:
  "Player_new (JStr ''Bob'') (JStr ''Z'') = \<lparr>name = JStr ''Bob'', symbol = JStr ''Z''\<rparr>
   \<and> Player_new (JStr []) (JStr ''O'') = \<lparr>name = JStr [], symbol = JStr ''O''\<rparr>
   \<and> set_symbol (JStr ''Z'') alice = Inl (Error ''Player symbol must be either \"X\" or \"O\"'')
   \<and> set_name (JStr []) alice = Inl (Error ''Player name must be a non-empty string'')"
  by (simp add: Player_new_def set_symbol_def isXO_def trim_def)

section \<open>Serialisation\<close>

text \<open>
  C10. \<open>Gameboard_fromJSON\<close> copies the \<^verbatim>\<open>board\<close> entry when it is an array of 9
  elements; for every other entry (missing, not an array, an array of another length) it
  returns the constructor's board of nine empty cells, without failing.
\<close>

theorem Gameboard_fromJSON_fallback:
  "(\<forall>xs. board d = JArr xs \<and> length xs = 9 \<longrightarrow> Gameboard_fromJSON d = xs)
   \<and> ((\<nexists>xs. board d = JArr xs \<and> length xs = 9) \<longrightarrow>
        Gameboard_fromJSON d = Gameboard_new \<and> getEmptyPositions (Gameboard_fromJSON d) = [0, 1, 2, 3, 4, 5, 6, 7, 8])"
proof -
  have e: "getEmptyPositions (replicate 9 []) = [0, 1, 2, 3, 4, 5, 6, 7, 8]"
    by (simp add: getEmptyPositions_def numeral_eq_Suc enumerate_simps)
  show ?thesis
    by (cases "board d")
       (auto simp: Gameboard_fromJSON_def Gameboard_new_def reset_def Let_def e)
qed

theorem Gameboard_fromJSON_fallback_witness:
  "Gameboard_fromJSON \<lparr>board = JArr [''X'', ''O'', ''X'', [], [], [], [], [], []]\<rparr> =
      [''X'', ''O'', ''X'', [], [], [], [], [], []]
   \<and> Gameboard_fromJSON \<lparr>board = JUndefined\<rparr> = Gameboard_new
   \<and> Gameboard_fromJSON \<lparr>board = JStr ''XOXOXOXOX''\<rparr> = Gameboard_new
   \<and> Gameboard_fromJSON \<lparr>board = JArr [''X'', ''O'', ''X'']\<rparr> = Gameboard_new"
  using Gameboard_fromJSON_fallback [of "\<lparr>board = JArr [''X'', ''O'', ''X'', [], [], [], [], [], []]\<rparr>"]
    Gameboard_fromJSON_fallback [of "\<lparr>board = JUndefined\<rparr>"]
    Gameboard_fromJSON_fallback [of "\<lparr>board = JStr ''XOXOXOXOX''\<rparr>"]
    Gameboard_fromJSON_fallback [of "\<lparr>board = JArr [''X'', ''O'', ''X'']\<rparr>"]
  by simp

lemma Player_roundtrip: "Player_fromJSON (Player_toJSON p) = p"
  by (simp add: Player_fromJSON_def Player_toJSON_def Player_new_def)

lemma Gameboard_roundtrip: "length b = 9 \<Longrightarrow> Gameboard_fromJSON (Gameboard_toJSON b) = b"
  by (simp add: Gameboard_fromJSON_def Gameboard_toJSON_def getBoard_def Let_def)

lemma Game_roundtrip:
  assumes "wellFormed g"
  shows "Game_fromJSON (Game_toJSON g) = Some g"
proof -
  from assms obtain p0 p1 where ps: "players g = [p0, p1]"
    by (cases "players g"; cases "tl (players g)") (auto simp: wellFormed_def)
  from assms have b: "Gameboard_fromJSON (Gameboard_toJSON (gameboard g)) = gameboard g"
    by (simp add: wellFormed_def Gameboard_roundtrip)
  show ?thesis
    using ps b
    by (cases g) (simp add: Game_fromJSON_def Game_toJSON_def Game_new_def Player_roundtrip
          Let_def split: option.splits)
qed

text \<open>
  C8. For every reachable game, \<open>Game_fromJSON\<close> of its \<open>Game_toJSON\<close> is a game on which
  every call of \<open>makeMove\<close>, with the same index and clock readings, returns or throws
  the same (success flag, error, snapshot) and leaves the same game (board, history,
  current player index, active flag) as on the original.
\<close>

theorem Game_roundtrip_makeMove:
  assumes "reachable g"
  shows "\<exists>g'. Game_fromJSON (Game_toJSON g) = Some g'
     \<and> (\<forall>index tMove tEnd. makeMove index tMove tEnd g' = makeMove index tMove tEnd g)"
  using Game_roundtrip [OF reachable_wellFormed [OF assms]] by simp

theorem Game_roundtrip_makeMove_witness:
  "reachable (snd (makeMove (JNum 0) 1 2 startedGame))
   \<and> Game_fromJSON (Game_toJSON (snd (makeMove (JNum 0) 1 2 startedGame))) =
       Some (snd (makeMove (JNum 0) 1 2 startedGame))
   \<and> makeMove (JNum 0) 3 4
        (the (Game_fromJSON (Game_toJSON (snd (makeMove (JNum 0) 1 2 startedGame))))) =
      makeMove (JNum 0) 3 4 (snd (makeMove (JNum 0) 1 2 startedGame))"
proof -
  have r: "reachable (snd (makeMove (JNum 0) 1 2 startedGame))"
    by (intro reachable.intros reachable_startedGame)
  have j: "Game_fromJSON (Game_toJSON (snd (makeMove (JNum 0) 1 2 startedGame))) =
       Some (snd (makeMove (JNum 0) 1 2 startedGame))"
    unfolding after0
    by (simp add: Game_fromJSON_def Game_toJSON_def Game_new_def Player_fromJSON_def
          Player_toJSON_def Player_new_def Gameboard_fromJSON_def Gameboard_toJSON_def
          getBoard_def Let_def)
  from Game_roundtrip_makeMove [OF r] j r show ?thesis by auto
qed

section \<open>Invariants of a run\<close>

lemma length_getEmptyPositions_aux:
  "length (filter (\<lambda>index. index \<noteq> None)
       (map (\<lambda>(index, cell). if cell = [] then Some index else None) (enumerate n b))) =
   length (filter (\<lambda>cell. cell = []) b)"
  by (induction b arbitrary: n) simp_all

lemma length_getEmptyPositions:
  "length (getEmptyPositions b) = length (filter (\<lambda>cell. cell = []) b)"
  unfolding getEmptyPositions_def length_map by (rule length_getEmptyPositions_aux)

lemma filter_empty_update:
  "i < length b \<Longrightarrow> b ! i = [] \<Longrightarrow> s \<noteq> [] \<Longrightarrow>
     Suc (length (filter (\<lambda>cell. cell = []) (b[i := s]))) = length (filter (\<lambda>cell. cell = []) b)"
proof (induction b arbitrary: i)
  case Nil
  then show ?case by simp
next
  case (Cons c b)
  then show ?case by (cases i) auto
qed

lemma isXO_symbolText: "isXO v \<Longrightarrow> symbolText v \<noteq> []"
  by (auto simp: isXO_def)

lemma makeMove_moveCount:
  "moveCount (snd (makeMove index tMove tEnd g)) = moveCount g"
proof (cases "placeable index g")
  case False
  then show ?thesis by (simp add: makeMove_rejected_state)
next
  case True
  then obtain p where p: "getCurrentPlayer g = Some p" and xo: "isXO (symbol p)"
    and c: "cellAt (gameboard g) (indexOf index) = Some []"
    by (auto simp: placeable_def split: option.splits)
  from c have i: "indexOf index < length (gameboard g)" and e: "gameboard g ! indexOf index = []"
    by (auto simp: cellAt_def split: if_splits)
  from filter_empty_update [OF i e isXO_symbolText [OF xo]]
  show ?thesis
    by (simp add: moveCount_def makeMove_placed_board [OF True p]
          makeMove_placed_history [OF True] length_getEmptyPositions)
qed

lemma makeMoves_moveCount: "moveCount (makeMoves calls g) = moveCount g"
  by (induction calls g rule: makeMoves.induct) (simp_all add: makeMove_moveCount)

lemma startGame_moveCount: "moveCount (startGame now g) = 9"
  by (simp add: moveCount_def startGame_def reset_def length_getEmptyPositions)

text \<open>
  C4. After \<open>startGame\<close> and any sequence of \<open>makeMove\<close> calls, accepted, rejected or
  throwing, the length of the history plus the number of empty positions is 9.
\<close>

theorem moveCount_invariant:
  "length (gameHistory (makeMoves calls (startGame now g)))
     + length (getEmptyPositions (gameboard (makeMoves calls (startGame now g)))) = 9"
  using makeMoves_moveCount [of calls "startGame now g"] startGame_moveCount [of now g]
  by (simp add: moveCount_def)

theorem moveCount_invariant_witness:
  "length (gameHistory (makeMoves [(JNum 0, 1, 1), (JNum 0, 2, 2), (JNum 9, 3, 3)] (startGame 0 topRowGame))) = 1
   \<and> length (getEmptyPositions (gameboard
         (makeMoves [(JNum 0, 1, 1), (JNum 0, 2, 2), (JNum 9, 3, 3)] (startGame 0 topRowGame)))) = 8"
proof -
  have h: "length (gameHistory
      (makeMoves [(JNum 0, 1, 1), (JNum 0, 2, 2), (JNum 9, 3, 3)] (startGame 0 topRowGame))) = 1"
    by (simp add: topRowGame_eval startGame_def reset_def numeral_eq_Suc eval_defs)
  show ?thesis
    using moveCount_invariant
      [of "[(JNum 0, 1, 1), (JNum 0, 2, 2), (JNum 9, 3, 3)]" 0 topRowGame] h
    by simp
qed

lemma movers_inactive: "\<not> gameActive g \<Longrightarrow> movers calls g = []"
proof (induction calls g rule: movers.induct)
  case (1 g)
  then show ?case by simp
next
  case (2 index tMove tEnd calls g)
  from "2.prems" have np: "\<not> placeable index g" by (simp add: placeable_def)
  with 2 show ?case
    by (simp add: makeMove_accepted_iff makeMove_rejected_state)
qed

lemma upt_Suc_shift: "map f [0..<Suc n] = f 0 # map (\<lambda>j. f (Suc j)) [0..<n]"
  by (simp add: upt_conv_Cons map_Suc_upt [symmetric] del: upt_Suc)

lemma movers_alternate:
  "currentPlayerIndex g < 2 \<Longrightarrow>
     movers calls g = map (\<lambda>j. (currentPlayerIndex g + j) mod 2) [0..<length (movers calls g)]"
proof (induction calls g rule: movers.induct)
  case (1 g)
  then show ?case by simp
next
  case (2 index tMove tEnd calls g)
  let ?g' = "snd (makeMove index tMove tEnd g)"
  show ?case
  proof (cases "placeable index g")
    case False
    with 2 show ?thesis by (simp add: makeMove_accepted_iff makeMove_rejected_state)
  next
    case True
    note idx = makeMove_placed_index [OF True, of tMove tEnd]
    show ?thesis
    proof (cases "gameActive ?g'")
      case False
      then have "movers calls ?g' = []" by (rule movers_inactive)
      with True "2.prems" show ?thesis by (simp add: makeMove_accepted_iff)
    next
      case active: True
      from "2.prems" have "currentPlayerIndex g = 0 \<or> currentPlayerIndex g = 1" by arith
      with idx active have flip: "currentPlayerIndex ?g' = (currentPlayerIndex g + 1) mod 2"
        by auto
      then have b: "currentPlayerIndex ?g' < 2" by simp
      have acc: "accepted (fst (makeMove index tMove tEnd g))"
        using True by (simp add: makeMove_accepted_iff)
      from "2.IH"(1) [OF acc b]
      have ih: "movers calls ?g' =
          map (\<lambda>j. (currentPlayerIndex ?g' + j) mod 2) [0..<length (movers calls ?g')]" .
      have "movers ((index, tMove, tEnd) # calls) g = currentPlayerIndex g # movers calls ?g'"
        using acc by simp
      also have "\<dots> = currentPlayerIndex g #
          map (\<lambda>j. (currentPlayerIndex ?g' + j) mod 2) [0..<length (movers calls ?g')]"
        using ih by simp
      also have "\<dots> = map (\<lambda>j. (currentPlayerIndex g + j) mod 2)
           [0..<Suc (length (movers calls ?g'))]"
        unfolding upt_Suc_shift using "2.prems" flip by (simp add: mod_simps)
      finally show ?thesis using acc by simp
    qed
  qed
qed

text \<open>
  C2. In every sequence of \<open>makeMove\<close> calls on a started game, the players to move at the
  accepted calls are 0, 1, 0, 1, ... in turn; \<open>currentPlayerIndex\<close> stays 0 or 1; a
  further call flips it when it is accepted and the game is active afterwards, and leaves
  it as it is when the call is rejected (by a failure result or by a throw) or ends the
  game.
\<close>

theorem currentPlayerIndex_alternates:
  "movers calls (startGame now g0) =
      map (\<lambda>j. j mod 2) [0..<length (movers calls (startGame now g0))]
   \<and> currentPlayerIndex (makeMoves calls (startGame now g0)) < 2
   \<and> currentPlayerIndex (snd (makeMove index tMove tEnd (makeMoves calls (startGame now g0)))) =
       (if accepted (fst (makeMove index tMove tEnd (makeMoves calls (startGame now g0))))
           \<and> gameActive (snd (makeMove index tMove tEnd (makeMoves calls (startGame now g0))))
        then 1 - currentPlayerIndex (makeMoves calls (startGame now g0))
        else currentPlayerIndex (makeMoves calls (startGame now g0)))"
proof -
  let ?g = "makeMoves calls (startGame now g0)"
  have z: "currentPlayerIndex (startGame now g0) = 0" by (simp add: startGame_def)
  have a: "movers calls (startGame now g0) =
      map (\<lambda>j. j mod 2) [0..<length (movers calls (startGame now g0))]"
    using movers_alternate [of "startGame now g0" calls] z by simp
  have bound: "currentPlayerIndex (makeMoves cs g) < 2" if "currentPlayerIndex g < 2" for cs g
    using that by (induction cs g rule: makeMoves.induct) (simp_all add: makeMove_index_bound)
  have b: "currentPlayerIndex ?g < 2" using bound z by simp
  have c: "currentPlayerIndex (snd (makeMove index tMove tEnd ?g)) =
       (if accepted (fst (makeMove index tMove tEnd ?g))
           \<and> gameActive (snd (makeMove index tMove tEnd ?g))
        then 1 - currentPlayerIndex ?g else currentPlayerIndex ?g)"
  proof (cases "placeable index ?g")
    case True
    from makeMove_placed_index [OF True, of tMove tEnd] True b show ?thesis
      by (auto simp: makeMove_accepted_iff)
  next
    case False
    then show ?thesis by (simp add: makeMove_accepted_iff makeMove_rejected_state)
  qed
  from a b c show ?thesis by blast
qed

theorem currentPlayerIndex_alternates_witness:
  "movers [(JNum 0, 1, 1), (JNum 0, 2, 2), (JStr ''4'', 3, 3), (JNum 4, 4, 4), (JNum 8, 5, 5)]
      (startGame 0 topRowGame) = [0, 1, 0]
   \<and> currentPlayerIndex (makeMoves [(JNum 0, 1, 1)] (startGame 0 topRowGame)) = 1
   \<and> currentPlayerIndex (snd (makeMove (JNum 0) 2 2
         (makeMoves [(JNum 0, 1, 1)] (startGame 0 topRowGame)))) = 1
   \<and> currentPlayerIndex (snd (makeMove (JNum 4) 2 2
         (makeMoves [(JNum 0, 1, 1)] (startGame 0 topRowGame)))) = 0"
proof -
  have s: "startGame 0 topRowGame = startedGame"
    by (simp add: topRowGame_eval startedGame_eval startGame_def reset_def numeral_eq_Suc)
  have one: "makeMoves [(JNum 0, 1, 1)] startedGame =
    \<lparr>players = [\<lparr>name = JStr ''Alice'', symbol = JStr ''X''\<rparr>,
                \<lparr>name = JStr ''Bob'', symbol = JStr ''O''\<rparr>],
     gameboard = [''X'', [], [], [], [], [], [], [], []],
     currentPlayerIndex = 1, gameActive = True,
     gameHistory =
       [\<lparr>h_player = JStr ''Alice'', h_symbol = JStr ''X'', h_position = JNum 0, h_timestamp = 1\<rparr>],
     startTime = Some 0, endTime = None\<rparr>"
    by (simp add: startedGame_eval eval_defs)
  have l: "length (movers [(JNum 0, 1, 1), (JNum 0, 2, 2), (JStr ''4'', 3, 3), (JNum 4, 4, 4),
      (JNum 8, 5, 5)] (startGame 0 topRowGame)) = 3"
    unfolding s by (simp add: startedGame_eval eval_defs accepted_def)
  have r: "\<not> accepted (fst (makeMove (JNum 0) 2 2 (makeMoves [(JNum 0, 1, 1)] (startGame 0 topRowGame))))"
    unfolding s one by (simp add: eval_defs accepted_def)
  have a: "accepted (fst (makeMove (JNum 4) 2 2 (makeMoves [(JNum 0, 1, 1)] (startGame 0 topRowGame))))
     \<and> gameActive (snd (makeMove (JNum 4) 2 2 (makeMoves [(JNum 0, 1, 1)] (startGame 0 topRowGame))))"
    unfolding s one by (simp add: eval_defs accepted_def)
  have c: "currentPlayerIndex (makeMoves [(JNum 0, 1, 1)] (startGame 0 topRowGame)) = 1"
    unfolding s one by simp
  have m: "movers [(JNum 0, 1, 1), (JNum 0, 2, 2), (JStr ''4'', 3, 3), (JNum 4, 4, 4),
      (JNum 8, 5, 5)] (startGame 0 topRowGame) = [0, 1, 0]"
    using currentPlayerIndex_alternates
        [of "[(JNum 0, 1, 1), (JNum 0, 2, 2), (JStr ''4'', 3, 3), (JNum 4, 4, 4), (JNum 8, 5, 5)]"
            0 topRowGame "JNum 0" 2 2] l
    by (simp add: upt_rec numeral_eq_Suc del: movers.simps makeMoves.simps)
  show ?thesis
    using currentPlayerIndex_alternates [of "[(JNum 0, 1, 1)]" 0 topRowGame "JNum 0" 2 2]
      currentPlayerIndex_alternates [of "[(JNum 0, 1, 1)]" 0 topRowGame "JNum 4" 2 2]
      m r a c
    by (simp del: movers.simps makeMoves.simps)
qed

end
